theory Spec2Isabelle
  imports Complex_Main
begin

section \<open>Shared types\<close>

text \<open>
  The shared package declares \<open>Currency\<close> as a union of twenty string literals
  (\<open>CurrencySchema\<close>, \<open>type Currency\<close>).  The constructors stand for the literals and
  \<open>str\<close> gives the JavaScript string each of them is.
\<close>

datatype Currency =
  USD | EUR | GBP | JPY | AUD | CAD | CHF | CNY | SEK | NZD
  | MXN | SGD | HKD | NOK | TRY | ZAR | BRL | INR | KRW | PLN

fun str :: "Currency \<Rightarrow> string" where
  "str USD = ''USD''" | "str EUR = ''EUR''" | "str GBP = ''GBP''" | "str JPY = ''JPY''"
| "str AUD = ''AUD''" | "str CAD = ''CAD''" | "str CHF = ''CHF''" | "str CNY = ''CNY''"
| "str SEK = ''SEK''" | "str NZD = ''NZD''" | "str MXN = ''MXN''" | "str SGD = ''SGD''"
| "str HKD = ''HKD''" | "str NOK = ''NOK''" | "str TRY = ''TRY''" | "str ZAR = ''ZAR''"
| "str BRL = ''BRL''" | "str INR = ''INR''" | "str KRW = ''KRW''" | "str PLN = ''PLN''"

text \<open>
  A JavaScript \<open>Date\<close> holds either an integral number of milliseconds since the epoch
  or NaN (an invalid date); \<open>getTime\<close> returns \<open>None\<close> for NaN.
\<close>

datatype Date = Time int | InvalidDate

fun getTime :: "Date \<Rightarrow> int option" where
  "getTime (Time t) = Some t"
| "getTime InvalidDate = None"

text \<open>The provider tags the clients write into the \<open>provider\<close> field.\<close>

datatype ProviderTag = Mock | ExchangerateApi | Freecurrencyapi

text \<open>
  \<open>ExchangeRate\<close> of the shared package.  A JavaScript number that comes out of
  \<open>JSON.parse\<close> is modelled as a real number.
\<close>

record ExchangeRate =
  base :: Currency
  quote :: Currency
  rate :: real
  timestamp :: Date
  provider :: ProviderTag

section \<open>Rate store (services/rates/rateStore)\<close>

text \<open>\<open>type StoredRate = ExchangeRate & { stale: boolean }\<close>\<close>

record StoredRate = ExchangeRate +
  stale :: bool

text \<open>The module-level \<open>Map<string, StoredRate>\<close>, passed explicitly.\<close>

type_synonym Store = "string \<rightharpoonup> StoredRate"

text \<open>\<open>key(base, quote)\<close> is the template string \<open>`${base}-${quote}`\<close>.\<close>

definition key :: "Currency \<Rightarrow> Currency \<Rightarrow> string" where
  "key b q = str b @ ''-'' @ str q"

text \<open>The object spread \<open>{ ...rate, stale }\<close>.\<close>

definition withStale :: "ExchangeRate \<Rightarrow> bool \<Rightarrow> StoredRate" where
  "withStale r st =
     \<lparr>base = base r, quote = quote r, rate = rate r, timestamp = timestamp r,
      provider = provider r, stale = st\<rparr>"

text \<open>\<open>saveRates(rates, stale)\<close>: one \<open>store.set\<close> per element, in order.\<close>

fun saveRates :: "ExchangeRate list \<Rightarrow> bool \<Rightarrow> Store \<Rightarrow> Store" where
  "saveRates [] st store = store"
| "saveRates (r # rates) st store =
     saveRates rates st (store(key (base r) (quote r) \<mapsto> withStale r st))"

text \<open>
  \<open>Date.now() - entry.timestamp.getTime() > cacheTtlMs\<close>; a comparison with NaN is
  false.
\<close>

definition isExpired :: "int \<Rightarrow> Date \<Rightarrow> int \<Rightarrow> bool" where
  "isExpired now ts cacheTtlMs =
     (case getTime ts of None \<Rightarrow> False | Some t \<Rightarrow> now - t > cacheTtlMs)"

text \<open>
  \<open>getRate(base, quote, cacheTtlMs)\<close>, with the reading of \<open>Date.now()\<close> as the
  argument \<open>now\<close>.  \<open>None\<close> is \<open>null\<close>.
\<close>

definition getRate :: "Store \<Rightarrow> int \<Rightarrow> Currency \<Rightarrow> Currency \<Rightarrow> int \<Rightarrow> StoredRate option" where
  "getRate store now b q cacheTtlMs =
     (case store (key b q) of
        None \<Rightarrow> None
      | Some entry \<Rightarrow>
          Some (entry\<lparr>stale := stale entry \<or> isExpired now (timestamp entry) cacheTtlMs\<rparr>))"

text \<open>
  A history of the store: the calls of \<open>saveRates\<close> made since the module was loaded,
  oldest first, applied to a store.
\<close>

fun saveAll :: "(ExchangeRate list \<times> bool) list \<Rightarrow> Store \<Rightarrow> Store" where
  "saveAll [] store = store"
| "saveAll ((rates, st) # ops) store = saveAll ops (saveRates rates st store)"

text \<open>The rates of a batch that are for the pair \<open>(b, q)\<close>, in the order of the batch.\<close>

definition forPair :: "Currency \<Rightarrow> Currency \<Rightarrow> ExchangeRate list \<Rightarrow> ExchangeRate list" where
  "forPair b q rates = filter (\<lambda>r. base r = b \<and> quote r = q) rates"

text \<open>
  Everything a history saved for the pair \<open>(b, q)\<close>, each rate with the flag of its
  call, oldest first.
\<close>

fun savedFor :: "Currency \<Rightarrow> Currency \<Rightarrow> (ExchangeRate list \<times> bool) list \<Rightarrow> (ExchangeRate \<times> bool) list" where
  "savedFor b q [] = []"
| "savedFor b q ((rates, st) # ops) = map (\<lambda>r. (r, st)) (forPair b q rates) @ savedFor b q ops"

section \<open>Errors, JSON values and the network\<close>

text \<open>
  What the clients throw: an \<open>AppError\<close> with its message, \<open>statusCode\<close> and \<open>code\<close>
  (the \<open>details\<close> object is not modelled, no caller reads it), or the \<open>TypeError\<close> the
  runtime raises when a property of \<open>null\<close> is read or the \<open>in\<close> operator is applied to
  a value that is not an object.
\<close>

datatype error = AppError string nat string | TypeError

fun statusCode :: "error \<Rightarrow> nat option" where
  "statusCode (AppError msg sc c) = Some sc"
| "statusCode TypeError = None"

fun errorCode :: "error \<Rightarrow> string option" where
  "errorCode (AppError msg sc c) = Some c"
| "errorCode TypeError = None"

text \<open>The value \<open>JSON.parse\<close> builds from a response body.\<close>

datatype json =
  JNull | JBool bool | JNum real | JStr string | JArr "json list" | JObj "(string \<times> json) list"

text \<open>
  Reading the property \<open>k\<close> of a value that is not \<open>null\<close>; \<open>None\<close> is \<open>undefined\<close>.
  \<open>JSON.parse\<close> keeps the last of several members with one name.  The clients read the
  names \<open>result\<close>, \<open>conversion_rate\<close>, \<open>time_last_update_unix\<close>, \<open>data\<close>, \<open>meta\<close>,
  \<open>last_updated_at\<close> and the currency codes, none of which a string, an array or a
  prototype has.
\<close>

fun getProp :: "json \<Rightarrow> string \<Rightarrow> json option" where
  "getProp (JObj members) k = map_of (rev members) k"
| "getProp v k = None"

text \<open>\<open>k in v\<close>: a \<open>TypeError\<close> unless \<open>v\<close> is an object or an array.\<close>

fun hasProp :: "string \<Rightarrow> json \<Rightarrow> error + bool" where
  "hasProp k (JObj members) = Inr (k \<in> fst ` set members)"
| "hasProp k (JArr vs) = Inr False"
| "hasProp k v = Inl TypeError"

text \<open>The truthiness of a parsed JSON value.\<close>

fun truthy :: "json \<Rightarrow> bool" where
  "truthy JNull = False"
| "truthy (JBool t) = t"
| "truthy (JNum n) = (n \<noteq> 0)"
| "truthy (JStr s) = (s \<noteq> [])"
| "truthy (JArr vs) = True"
| "truthy (JObj members) = True"

text \<open>
  A \<open>Response\<close>: its status and what \<open>response.json()\<close> resolves to (\<open>None\<close> when it
  rejects, the body not being JSON).
\<close>

record Response =
  status :: nat
  body :: "json option"

definition ok :: "Response \<Rightarrow> bool" where
  "ok response = (200 \<le> status response \<and> status response \<le> 299)"

text \<open>
  What one call of \<open>fetch\<close> under the abort timer does: it resolves with a response, it
  rejects with the \<open>AbortError\<close> of the timer, or it rejects with another error.
\<close>

datatype outcome = Responded Response | Aborted | Rejected

text \<open>
  The environment of a run.  \<open>net w n\<close> is the outcome of the \<open>n\<close>-th call of \<open>fetch\<close>
  made (counted from 0); the code is sequential, so the outcomes of a run are a sequence
  and the request text need not be modelled.  \<open>clock w n\<close> is what \<open>Date.now()\<close> and
  \<open>new Date()\<close> read once \<open>n\<close> calls of \<open>fetch\<close> have completed (the round trips are the
  only suspension points).  \<open>dateOf w v\<close> is the built-in \<open>new Date(v)\<close> and
  \<open>dateOfUnix w v\<close> is \<open>new Date(v * 1000)\<close>, for a parsed JSON value \<open>v\<close>;
  \<open>hourIn w tz\<close> is the hour \<open>Intl.DateTimeFormat\<close> prints for the time zone \<open>tz\<close>, read
  by \<open>parseInt\<close>.
\<close>

record World =
  net :: "nat \<Rightarrow> outcome"
  clock :: "nat \<Rightarrow> int"
  dateOf :: "json \<Rightarrow> Date"
  dateOfUnix :: "json \<Rightarrow> Date"
  hourIn :: "string \<Rightarrow> int"

text \<open>
  \<open>config.rates\<close>.  The environment schema that produces these values is not part of the
  sources at hand; \<open>retryCount\<close> is taken as a natural number when present, the hours and
  the TTL as integers.
\<close>

record RatesConfig =
  providerId :: ProviderTag
  apiKey :: "string option"
  retryCount :: "nat option"
  pairs :: "(Currency \<times> Currency) list"
  startHour :: int
  endHour :: int
  timezone :: string
  cacheTtlMs :: int

section \<open>Provider clients\<close>

text \<open>\<open>const retryCount = providerConfig.retryCount ?? 1\<close>\<close>

definition retryCountOf :: "RatesConfig \<Rightarrow> nat" where
  "retryCountOf cfg = (case retryCount cfg of None \<Rightarrow> 1 | Some n \<Rightarrow> n)"

definition validationError :: error where
  "validationError = AppError ''Base and quote currencies must differ'' 400 ''RATE_VALIDATION_ERROR''"

definition timeoutError :: error where
  "timeoutError = AppError ''Rate provider request timed out'' 504 ''RATE_PROVIDER_TIMEOUT''"

definition requestFailedError :: error where
  "requestFailedError = AppError ''Rate provider request failed'' 503 ''RATE_PROVIDER_REQUEST_FAILED''"

definition retriesExhaustedError :: error where
  "retriesExhaustedError =
     AppError ''Rate provider request failed after retries'' 503 ''RATE_PROVIDER_RETRIES_EXHAUSTED''"

definition invalidJsonError :: error where
  "invalidJsonError = AppError ''Invalid response from rate provider'' 502 ''RATE_PROVIDER_INVALID_JSON''"

definition invalidRateError :: error where
  "invalidRateError = AppError ''Rate provider returned invalid rate'' 502 ''RATE_PROVIDER_INVALID_RATE''"

definition providerError :: "nat \<Rightarrow> error" where
  "providerError sc = AppError ''Rate provider request failed'' sc ''RATE_PROVIDER_ERROR''"

text \<open>
  \<open>ensureApiKey\<close>, with the message of the client as argument: \<open>!providerConfig.apiKey\<close>
  holds for a missing and for an empty key.
\<close>

definition ensureApiKey :: "string \<Rightarrow> RatesConfig \<Rightarrow> error + string" where
  "ensureApiKey msg cfg =
     (case apiKey cfg of
        None \<Rightarrow> Inl (AppError msg 500 ''RATE_PROVIDER_CONFIG_ERROR'')
      | Some k \<Rightarrow> if k = [] then Inl (AppError msg 500 ''RATE_PROVIDER_CONFIG_ERROR'') else Inr k)"

text \<open>
  \<open>fetchWithTimeout\<close> (the same text in both clients): one call of \<open>fetch\<close>, the
  \<open>n\<close>-th of the run when \<open>n\<close> calls were made before; it returns the counter too.
\<close>

definition fetchWithTimeout :: "World \<Rightarrow> nat \<Rightarrow> (error + Response) \<times> nat" where
  "fetchWithTimeout w n =
     (case net w n of
        Responded response \<Rightarrow> (Inr response, Suc n)
      | Aborted \<Rightarrow> (Inl timeoutError, Suc n)
      | Rejected \<Rightarrow> (Inl requestFailedError, Suc n))"

text \<open>The \<open>catch\<close> around \<open>response.json()\<close>, the same in both clients.\<close>

definition badBodyError :: "Response \<Rightarrow> error" where
  "badBodyError response =
     (if \<not> ok response
      then providerError (if status response \<ge> 500 then 503 else status response)
      else invalidJsonError)"

text \<open>The status of the final \<open>throw\<close> of \<open>parseResponse\<close>, the same in both clients.\<close>

definition mappedStatus :: "Response \<Rightarrow> nat" where
  "mappedStatus response =
     (if status response \<ge> 500 then 503 else if status response = 404 then 404 else 502)"

subsection \<open>ExchangeRate-API client\<close>

text \<open>
  \<open>parseResponse(response, base, quote)\<close> of the ExchangeRate-API client; \<open>now\<close> is what
  \<open>new Date()\<close> reads.  Reading \<open>body.result\<close> of \<open>null\<close> throws on both paths.
\<close>

definition parseResponseER :: "World \<Rightarrow> Response \<Rightarrow> Currency \<Rightarrow> Currency \<Rightarrow> int \<Rightarrow> error + ExchangeRate" where
  "parseResponseER w response b q now =
     (case body response of
        None \<Rightarrow> Inl (badBodyError response)
      | Some JNull \<Rightarrow> Inl TypeError
      | Some bdy \<Rightarrow>
          if ok response \<and> getProp bdy ''result'' = Some (JStr ''success'') then
            (case getProp bdy ''conversion_rate'' of
               Some (JNum n) \<Rightarrow>
                 Inr \<lparr>base = b, quote = q, rate = n,
                      timestamp =
                        (case getProp bdy ''time_last_update_unix'' of
                           None \<Rightarrow> Time now
                         | Some v \<Rightarrow> if truthy v then dateOfUnix w v else Time now),
                      provider = ExchangerateApi\<rparr>
             | _ \<Rightarrow> Inl invalidRateError)
          else Inl (providerError (mappedStatus response)))"

subsection \<open>Freecurrencyapi client\<close>

text \<open>\<open>parseTimestamp(meta)\<close>; \<open>meta\<close> is \<open>body.meta\<close>, \<open>None\<close> for \<open>undefined\<close>.\<close>

definition parseTimestamp :: "World \<Rightarrow> json option \<Rightarrow> int \<Rightarrow> Date" where
  "parseTimestamp w meta now =
     (case meta of
        None \<Rightarrow> Time now
      | Some JNull \<Rightarrow> Time now
      | Some m \<Rightarrow>
          (case getProp m ''last_updated_at'' of
             None \<Rightarrow> Time now
           | Some v \<Rightarrow>
               if truthy v then
                 (case dateOf w v of Time t \<Rightarrow> Time t | InvalidDate \<Rightarrow> Time now)
               else Time now))"

text \<open>
  The loop over \<open>quotes\<close> in \<open>parseResponse\<close>, with \<open>rates\<close> the array built so far.
  \<open>body.data[quote]\<close> throws when \<open>data\<close> is \<open>null\<close>.
\<close>

fun collectRates :: "json \<Rightarrow> Currency \<Rightarrow> Date \<Rightarrow> Currency list \<Rightarrow> ExchangeRate list \<Rightarrow> error + ExchangeRate list" where
  "collectRates dat b ts [] rates = Inr rates"
| "collectRates dat b ts (q # quotes) rates =
     (if dat = JNull then Inl TypeError
      else case getProp dat (str q) of
             Some (JNum n) \<Rightarrow>
               collectRates dat b ts quotes
                 (rates @ [\<lparr>base = b, quote = q, rate = n, timestamp = ts, provider = Freecurrencyapi\<rparr>])
           | _ \<Rightarrow> Inl invalidRateError)"

text \<open>The path after the \<open>if\<close> of \<open>parseResponse\<close>: \<open>'message' in body\<close> is evaluated first.\<close>

definition failFC :: "Response \<Rightarrow> json \<Rightarrow> error + ExchangeRate list" where
  "failFC response bdy =
     (case hasProp ''message'' bdy of
        Inl e \<Rightarrow> Inl e
      | Inr _ \<Rightarrow> Inl (providerError (mappedStatus response)))"

text \<open>\<open>parseResponse(response, base, quotes)\<close> of the Freecurrencyapi client.\<close>

definition parseResponseFC :: "World \<Rightarrow> Response \<Rightarrow> Currency \<Rightarrow> Currency list \<Rightarrow> int \<Rightarrow> error + ExchangeRate list" where
  "parseResponseFC w response b quotes now =
     (case body response of
        None \<Rightarrow> Inl (badBodyError response)
      | Some bdy \<Rightarrow>
          if ok response then
            (case hasProp ''data'' bdy of
               Inl e \<Rightarrow> Inl e
             | Inr True \<Rightarrow>
                 (case getProp bdy ''data'' of
                    None \<Rightarrow> Inl TypeError \<comment> \<open>not reached: the member exists\<close>
                  | Some dat \<Rightarrow>
                      collectRates dat b (parseTimestamp w (getProp bdy ''meta'') now) quotes [])
             | Inr False \<Rightarrow> failFC response bdy)
          else failFC response bdy)"

subsection \<open>The retry loop\<close>

text \<open>
  The \<open>while (attempt <= retryCount)\<close> loop of \<open>requestLatestRate\<close> and
  \<open>requestLatestRates\<close>; the two clients hold the same text and differ in the
  \<open>parseResponse\<close> they call, which is the argument \<open>parse\<close> (given the response and the
  reading of the clock).  Everything thrown inside the \<open>try\<close> block, by
  \<open>fetchWithTimeout\<close> or by \<open>parseResponse\<close>, arrives in the \<open>catch\<close> block.  The second
  component of the result is the number of \<open>fetch\<close> calls made so far.
\<close>

function retryLoop :: "World \<Rightarrow> nat \<Rightarrow> (Response \<Rightarrow> int \<Rightarrow> error + 'a) \<Rightarrow> nat \<Rightarrow> nat \<Rightarrow> (error + 'a) \<times> nat" where
  "retryLoop w rc parse attempt n =
     (if attempt \<le> rc then
        (case fst (fetchWithTimeout w n) of
           Inr response \<Rightarrow>
             if ok response \<or> status response < 500 \<or> attempt = rc then
               (case parse response (clock w (Suc n)) of
                  Inr x \<Rightarrow> (Inr x, Suc n)
                | Inl err \<Rightarrow>
                    if attempt = rc then (Inl err, Suc n)
                    else retryLoop w rc parse (attempt + 1) (Suc n))
             else retryLoop w rc parse (attempt + 1) (Suc n)
         | Inl err \<Rightarrow>
             if attempt = rc then (Inl err, Suc n)
             else retryLoop w rc parse (attempt + 1) (Suc n))
      else (Inl retriesExhaustedError, n))"
  by pat_completeness auto
termination
  by (relation "measure (\<lambda>(w, rc, parse, attempt, n). Suc rc - attempt)") auto

text \<open>\<open>requestLatestRate(base, quote)\<close> of the ExchangeRate-API client.\<close>

definition requestLatestRate :: "World \<Rightarrow> RatesConfig \<Rightarrow> Currency \<Rightarrow> Currency \<Rightarrow> nat \<Rightarrow> (error + ExchangeRate) \<times> nat" where
  "requestLatestRate w cfg b q n =
     (if b = q then (Inl validationError, n)
      else case ensureApiKey ''ExchangeRate-API key is missing'' cfg of
             Inl e \<Rightarrow> (Inl e, n)
           | Inr k \<Rightarrow>
               retryLoop w (retryCountOf cfg) (\<lambda>response now. parseResponseER w response b q now) 0 n)"

text \<open>
  \<open>requestLatestRates(base, quotes)\<close> of the Freecurrencyapi client; \<open>buildUrl\<close> calls
  \<open>ensureApiKey\<close>.
\<close>

definition requestLatestRates :: "World \<Rightarrow> RatesConfig \<Rightarrow> Currency \<Rightarrow> Currency list \<Rightarrow> nat \<Rightarrow> (error + ExchangeRate list) \<times> nat" where
  "requestLatestRates w cfg b quotes n =
     (if list_ex (\<lambda>q. q = b) quotes then (Inl validationError, n)
      else case ensureApiKey ''Freecurrencyapi key is missing'' cfg of
             Inl e \<Rightarrow> (Inl e, n)
           | Inr k \<Rightarrow>
               retryLoop w (retryCountOf cfg) (\<lambda>response now. parseResponseFC w response b quotes now) 0 n)"

subsection \<open>Mock provider\<close>

text \<open>
  \<open>getLatestRate\<close> of the mock provider: the fixed rate 1 at the current time, and no
  call of \<open>fetch\<close>.
\<close>

definition mockGetLatestRate :: "World \<Rightarrow> Currency \<Rightarrow> Currency \<Rightarrow> nat \<Rightarrow> (error + ExchangeRate) \<times> nat" where
  "mockGetLatestRate w b q n =
     (if b = q then (Inl validationError, n)
      else (Inr \<lparr>base = b, quote = q, rate = 1, timestamp = Time (clock w n), provider = Mock\<rparr>, n))"

text \<open>
  \<open>Promise.all\<close> over promises that are settled already: the array of the values, or the
  first rejection.
\<close>

fun promiseAll :: "(error + 'a) list \<Rightarrow> error + 'a list" where
  "promiseAll [] = Inr []"
| "promiseAll (Inl e # ps) = Inl e"
| "promiseAll (Inr x # ps) = (case promiseAll ps of Inl e \<Rightarrow> Inl e | Inr xs \<Rightarrow> Inr (x # xs))"

text \<open>
  \<open>getLatestRates\<close> of the mock provider:
  \<open>Promise.all(quotes.map(quote => this.getLatestRate(base, quote)))\<close>.
\<close>

definition mockGetLatestRates :: "World \<Rightarrow> Currency \<Rightarrow> Currency list \<Rightarrow> nat \<Rightarrow> (error + ExchangeRate list) \<times> nat" where
  "mockGetLatestRates w b quotes n =
     (promiseAll (map (\<lambda>q. fst (mockGetLatestRate w b q n)) quotes), n)"

subsection \<open>The provider interface and the selector\<close>

text \<open>
  \<open>rateProvider.getLatestRate\<close> of the provider \<open>buildProvider\<close> selects from
  \<open>config.rates.provider\<close>.  The Freecurrencyapi client takes the first element of the
  array \<open>requestLatestRates(base, [quote])\<close> returns; that array has one element, and the
  \<open>undefined\<close> an empty one would give is written as \<open>TypeError\<close>.
\<close>

definition getLatestRate :: "World \<Rightarrow> RatesConfig \<Rightarrow> Currency \<Rightarrow> Currency \<Rightarrow> nat \<Rightarrow> (error + ExchangeRate) \<times> nat" where
  "getLatestRate w cfg b q n =
     (case providerId cfg of
        Mock \<Rightarrow> mockGetLatestRate w b q n
      | ExchangerateApi \<Rightarrow> requestLatestRate w cfg b q n
      | Freecurrencyapi \<Rightarrow>
          (case requestLatestRates w cfg b [q] n of
             (Inl e, n') \<Rightarrow> (Inl e, n')
           | (Inr [], n') \<Rightarrow> (Inl TypeError, n')
           | (Inr (single # rest), n') \<Rightarrow> (Inr single, n')))"

text \<open>
  \<open>rateProvider.getLatestRates\<close>, which the ExchangeRate-API client does not have
  (\<open>None\<close>).
\<close>

definition getLatestRates :: "World \<Rightarrow> RatesConfig \<Rightarrow> Currency \<Rightarrow> Currency list \<Rightarrow> nat \<Rightarrow> ((error + ExchangeRate list) \<times> nat) option" where
  "getLatestRates w cfg b quotes n =
     (case providerId cfg of
        Mock \<Rightarrow> Some (mockGetLatestRates w b quotes n)
      | ExchangerateApi \<Rightarrow> None
      | Freecurrencyapi \<Rightarrow> Some (requestLatestRates w cfg b quotes n))"

section \<open>Rate fetcher (jobs/rateFetcher)\<close>

text \<open>
  \<open>groupByBase\<close>: the \<open>Map\<close> from a base to its quotes, as the list of its entries in
  insertion order.  \<open>pushQuote\<close> is \<open>grouped.get(pair.base)!.push(pair.quote)\<close>.
\<close>

definition pushQuote :: "Currency \<Rightarrow> Currency \<Rightarrow> (Currency \<times> Currency list) list \<Rightarrow> (Currency \<times> Currency list) list" where
  "pushQuote b q grouped = map (\<lambda>(b', quotes). if b' = b then (b', quotes @ [q]) else (b', quotes)) grouped"

fun groupInto :: "(Currency \<times> Currency list) list \<Rightarrow> (Currency \<times> Currency) list \<Rightarrow> (Currency \<times> Currency list) list" where
  "groupInto grouped [] = grouped"
| "groupInto grouped ((b, q) # rest) =
     groupInto (pushQuote b q (if b \<in> fst ` set grouped then grouped else grouped @ [(b, [])])) rest"

definition groupByBase :: "(Currency \<times> Currency) list \<Rightarrow> (Currency \<times> Currency list) list" where
  "groupByBase ps = groupInto [] ps"

text \<open>\<open>getHourInTimezone\<close> and \<open>withinActiveWindow\<close>.\<close>

definition getHourInTimezone :: "World \<Rightarrow> string \<Rightarrow> int" where
  "getHourInTimezone w tz = hourIn w tz"

definition withinActiveWindow :: "World \<Rightarrow> RatesConfig \<Rightarrow> bool" where
  "withinActiveWindow w cfg =
     (let currentHour = getHourInTimezone w (timezone cfg)
      in currentHour \<ge> startHour cfg \<and> currentHour < endHour cfg)"

text \<open>
  What the fetcher changes: the store and the number of \<open>fetch\<close> calls made so far.
\<close>

record FetcherState =
  rateStore :: Store
  calls :: nat

text \<open>
  The fallback loop of \<open>fetchForBase\<close>: one \<open>getLatestRate\<close> per quote, \<open>results\<close> the
  array built so far; the first rejection leaves the loop.
\<close>

fun fetchSequential :: "World \<Rightarrow> RatesConfig \<Rightarrow> Currency \<Rightarrow> Currency list \<Rightarrow> ExchangeRate list \<Rightarrow> nat \<Rightarrow> (error + ExchangeRate list) \<times> nat" where
  "fetchSequential w cfg b [] results n = (Inr results, n)"
| "fetchSequential w cfg b (q # quotes) results n =
     (case getLatestRate w cfg b q n of
        (Inl e, n') \<Rightarrow> (Inl e, n')
      | (Inr r, n') \<Rightarrow> fetchSequential w cfg b quotes (results @ [r]) n')"

text \<open>
  The \<open>try\<close> block of \<open>fetchForBase\<close> up to the call of \<open>saveRates\<close>: the rates to save,
  from the batched call when the provider has one and from the fallback loop otherwise, or
  what was thrown.
\<close>

definition tryFetch :: "World \<Rightarrow> RatesConfig \<Rightarrow> Currency \<Rightarrow> Currency list \<Rightarrow> nat \<Rightarrow> (error + ExchangeRate list) \<times> nat" where
  "tryFetch w cfg b quotes n =
     (case getLatestRates w cfg b quotes n of
        Some r \<Rightarrow> r
      | None \<Rightarrow> fetchSequential w cfg b quotes [] n)"

text \<open>
  The loop of the \<open>catch\<close> block: every quote that \<open>getRate\<close> finds is saved again with
  its rate, timestamp and provider, and \<open>stale = true\<close>.
\<close>

fun markStale :: "int \<Rightarrow> int \<Rightarrow> Currency \<Rightarrow> Currency list \<Rightarrow> Store \<Rightarrow> Store" where
  "markStale now ttl b [] st = st"
| "markStale now ttl b (q # quotes) st =
     markStale now ttl b quotes
       (case getRate st now b q ttl of
          None \<Rightarrow> st
        | Some cached \<Rightarrow>
            saveRates
              [\<lparr>base = b, quote = q, rate = rate cached, timestamp = timestamp cached,
                provider = provider cached\<rparr>]
              True st)"

definition fetchForBase :: "World \<Rightarrow> RatesConfig \<Rightarrow> Currency \<Rightarrow> Currency list \<Rightarrow> FetcherState \<Rightarrow> FetcherState" where
  "fetchForBase w cfg b quotes s =
     (case tryFetch w cfg b quotes (calls s) of
        (Inr rates, n') \<Rightarrow> \<lparr>rateStore = saveRates rates False (rateStore s), calls = n'\<rparr>
      | (Inl err, n') \<Rightarrow>
          \<lparr>rateStore = markStale (clock w n') (cacheTtlMs cfg) b quotes (rateStore s), calls = n'\<rparr>)"

text \<open>The \<open>for\<close> loop of \<open>runFetch\<close> over the entries of the grouped map.\<close>

fun runGroups :: "World \<Rightarrow> RatesConfig \<Rightarrow> (Currency \<times> Currency list) list \<Rightarrow> FetcherState \<Rightarrow> FetcherState" where
  "runGroups w cfg [] s = s"
| "runGroups w cfg ((b, quotes) # groups) s = runGroups w cfg groups (fetchForBase w cfg b quotes s)"

definition runFetch :: "World \<Rightarrow> RatesConfig \<Rightarrow> FetcherState \<Rightarrow> FetcherState" where
  "runFetch w cfg s =
     (if \<not> withinActiveWindow w cfg then s
      else runGroups w cfg (groupByBase (pairs cfg)) s)"

section \<open>Concrete environments\<close>

text \<open>
  The world in which the calls of \<open>fetch\<close> get the listed outcomes in turn and every later
  call is rejected; the clock advances one second per round trip from \<open>t0\<close>, the hour read
  is \<open>h\<close>, and the two date conversions are those of a number of milliseconds and of
  seconds (any other value converts to an invalid date).
\<close>

definition scripted :: "outcome list \<Rightarrow> int \<Rightarrow> int \<Rightarrow> World" where
  "scripted outcomes t0 h =
     \<lparr>net = (\<lambda>n. if n < length outcomes then outcomes ! n else Rejected),
      clock = (\<lambda>n. t0 + 1000 * int n),
      dateOf = (\<lambda>v. case v of JNum x \<Rightarrow> Time \<lfloor>x\<rfloor> | _ \<Rightarrow> InvalidDate),
      dateOfUnix = (\<lambda>v. case v of JNum x \<Rightarrow> Time \<lfloor>x * 1000\<rfloor> | _ \<Rightarrow> InvalidDate),
      hourIn = (\<lambda>tz. h)\<rparr>"

text \<open>
  A configuration with an API key, the active window 07 to 19 and a TTL of 45 minutes.
\<close>

definition exampleConfig :: "ProviderTag \<Rightarrow> nat \<Rightarrow> (Currency \<times> Currency) list \<Rightarrow> RatesConfig" where
  "exampleConfig p rc ps =
     \<lparr>providerId = p, apiKey = Some ''test-key'', retryCount = Some rc, pairs = ps,
      startHour = 7, endHour = 19, timezone = ''Asia/Tokyo'', cacheTtlMs = 2700000\<rparr>"

section \<open>Properties of the rate store\<close>

lemma str_length: "length (str c) = 3"
  by (cases c) simp_all

lemma str_inj: "str a = str b \<Longrightarrow> a = b"
  by (cases a; cases b; simp)

lemma key_inj: "key b q = key b' q' \<longleftrightarrow> b = b' \<and> q = q'"
proof
  assume "key b q = key b' q'"
  then have "str b = str b' \<and> ''-'' @ str q = ''-'' @ str q'"
    unfolding key_def by (intro conjI; simp add: str_length)
  then show "b = b' \<and> q = q'"
    by (auto dest: str_inj)
qed simp

lemma saveRates_other:
  "forPair b q rates = [] \<Longrightarrow> saveRates rates st store (key b q) = store (key b q)"
  by (induction rates arbitrary: store) (auto simp: forPair_def key_inj split: if_splits)

lemma saveRates_last:
  "forPair b q rates \<noteq> [] \<Longrightarrow>
   saveRates rates st store (key b q) = Some (withStale (last (forPair b q rates)) st)"
proof (induction rates arbitrary: store)
  case Nil
  then show ?case by (simp add: forPair_def)
next
  case (Cons r rates)
  show ?case
  proof (cases "forPair b q rates = []")
    case True
    with Cons.prems have "base r = b \<and> quote r = q"
      by (auto simp: forPair_def split: if_splits)
    with True show ?thesis
      by (simp add: saveRates_other) (simp add: forPair_def)
  next
    case False
    with Cons.IH show ?thesis
      by (simp add: forPair_def)
  qed
qed

lemma saveAll_lookup:
  "saveAll ops store (key b q) =
     (if savedFor b q ops = [] then store (key b q)
      else Some (withStale (fst (last (savedFor b q ops))) (snd (last (savedFor b q ops)))))"
proof (induction ops arbitrary: store)
  case Nil
  then show ?case by simp
next
  case (Cons op ops)
  obtain rates st where op: "op = (rates, st)" by (cases op)
  show ?case
  proof (cases "forPair b q rates = []")
    case True
    then show ?thesis by (simp add: op Cons.IH saveRates_other)
  next
    case False
    then show ?thesis
      by (simp add: op Cons.IH saveRates_last last_map)
  qed
qed

text \<open>
  C1.  Starting from the empty store of a fresh module, after any history of
  \<open>saveRates\<close> calls \<open>getRate\<close> returns \<open>null\<close> when the history never saved the pair,
  and otherwise the fields of the last rate saved for the pair together with
  \<open>stale = storedStale \<or> (now - storedTimestamp > ttlMs)\<close>, where \<open>storedStale\<close> is the
  flag of the call that saved it (the comparison is false for an invalid date).  In
  particular, on any store, after \<open>saveRates(rates, true)\<close> with a rate for the pair among
  \<open>rates\<close>, \<open>getRate\<close> reports \<open>stale = true\<close> whatever the timestamp, the clock and the TTL
  are.
\<close>

theorem getRate_after_saves:
  "getRate (saveAll ops Map.empty) now b q ttlMs =
     (case savedFor b q ops of
        [] \<Rightarrow> None
      | _ # _ \<Rightarrow>
          (let (r, storedStale) = last (savedFor b q ops)
           in Some \<lparr>base = base r, quote = quote r, rate = rate r, timestamp = timestamp r,
                     provider = provider r,
                     stale = (storedStale \<or>
                              (case timestamp r of
                                 Time storedTimestamp \<Rightarrow> now - storedTimestamp > ttlMs
                               | InvalidDate \<Rightarrow> False))\<rparr>))
   \<and> (forPair b q rates \<noteq> [] \<longrightarrow>
        getRate (saveRates rates True store) now' b q ttlMs' =
          Some \<lparr>base = b, quote = q, rate = rate (last (forPair b q rates)),
                 timestamp = timestamp (last (forPair b q rates)),
                 provider = provider (last (forPair b q rates)), stale = True\<rparr>)"
proof
  show "getRate (saveAll ops Map.empty) now b q ttlMs =
     (case savedFor b q ops of
        [] \<Rightarrow> None
      | _ # _ \<Rightarrow>
          (let (r, storedStale) = last (savedFor b q ops)
           in Some \<lparr>base = base r, quote = quote r, rate = rate r, timestamp = timestamp r,
                     provider = provider r,
                     stale = (storedStale \<or>
                              (case timestamp r of
                                 Time storedTimestamp \<Rightarrow> now - storedTimestamp > ttlMs
                               | InvalidDate \<Rightarrow> False))\<rparr>))"
    by (cases "savedFor b q ops")
       (auto simp: getRate_def saveAll_lookup withStale_def isExpired_def
          split: prod.splits Date.splits)
next
  have "forPair b q rates \<noteq> [] \<Longrightarrow>
          base (last (forPair b q rates)) = b \<and> quote (last (forPair b q rates)) = q"
    using last_in_set[of "forPair b q rates"] by (auto simp: forPair_def)
  then show "forPair b q rates \<noteq> [] \<longrightarrow>
        getRate (saveRates rates True store) now' b q ttlMs' =
          Some \<lparr>base = b, quote = q, rate = rate (last (forPair b q rates)),
                 timestamp = timestamp (last (forPair b q rates)),
                 provider = provider (last (forPair b q rates)), stale = True\<rparr>"
    by (simp add: getRate_def saveRates_last withStale_def)
qed

theorem getRate_after_saves_witness:
  "getRate (saveAll [([\<lparr>base = USD, quote = JPY, rate = 150, timestamp = Time 900, provider = Mock\<rparr>], False)] Map.empty) 1000 USD JPY 60000 =
     Some \<lparr>base = USD, quote = JPY, rate = 150, timestamp = Time 900, provider = Mock, stale = False\<rparr>
   \<and> getRate (saveAll [([\<lparr>base = USD, quote = JPY, rate = 150, timestamp = Time 900, provider = Mock\<rparr>], False)] Map.empty) 60900 USD JPY 60000 =
     Some \<lparr>base = USD, quote = JPY, rate = 150, timestamp = Time 900, provider = Mock, stale = False\<rparr>
   \<and> getRate (saveAll [([\<lparr>base = USD, quote = JPY, rate = 150, timestamp = Time 900, provider = Mock\<rparr>], False)] Map.empty) 60901 USD JPY 60000 =
     Some \<lparr>base = USD, quote = JPY, rate = 150, timestamp = Time 900, provider = Mock, stale = True\<rparr>
   \<and> getRate (saveAll [([\<lparr>base = USD, quote = JPY, rate = 150, timestamp = Time 900, provider = Mock\<rparr>], False)] Map.empty) 1000 JPY USD 60000 = None
   \<and> getRate
       (saveAll [([\<lparr>base = USD, quote = JPY, rate = 150, timestamp = Time 900, provider = Mock\<rparr>], True),
                 ([\<lparr>base = USD, quote = JPY, rate = 151, timestamp = Time 950, provider = Mock\<rparr>], False)]
          Map.empty) 1000 USD JPY 60000 =
     Some \<lparr>base = USD, quote = JPY, rate = 151, timestamp = Time 950, provider = Mock, stale = False\<rparr>
   \<and> forPair USD JPY [\<lparr>base = USD, quote = JPY, rate = 150, timestamp = Time 900, provider = Mock\<rparr>] \<noteq> []
   \<and> getRate (saveRates [\<lparr>base = USD, quote = JPY, rate = 150, timestamp = Time 900, provider = Mock\<rparr>] True Map.empty) 1000 USD JPY 60000 =
     Some \<lparr>base = USD, quote = JPY, rate = 150, timestamp = Time 900, provider = Mock, stale = True\<rparr>"
  using
    getRate_after_saves [of "[([\<lparr>base = USD, quote = JPY, rate = 150, timestamp = Time 900, provider = Mock\<rparr>], False)]" 1000 USD JPY 60000
      "[\<lparr>base = USD, quote = JPY, rate = 150, timestamp = Time 900, provider = Mock\<rparr>]" Map.empty 1000 60000]
    getRate_after_saves [of "[([\<lparr>base = USD, quote = JPY, rate = 150, timestamp = Time 900, provider = Mock\<rparr>], False)]" 60900 USD JPY 60000 "[]" Map.empty 1000 60000]
    getRate_after_saves [of "[([\<lparr>base = USD, quote = JPY, rate = 150, timestamp = Time 900, provider = Mock\<rparr>], False)]" 60901 USD JPY 60000 "[]" Map.empty 1000 60000]
    getRate_after_saves [of "[([\<lparr>base = USD, quote = JPY, rate = 150, timestamp = Time 900, provider = Mock\<rparr>], False)]" 1000 JPY USD 60000 "[]" Map.empty 1000 60000]
    getRate_after_saves [of
      "[([\<lparr>base = USD, quote = JPY, rate = 150, timestamp = Time 900, provider = Mock\<rparr>], True),
        ([\<lparr>base = USD, quote = JPY, rate = 151, timestamp = Time 950, provider = Mock\<rparr>], False)]"
      1000 USD JPY 60000 "[]" Map.empty 1000 60000]
  by (simp add: forPair_def)

section \<open>Properties of the provider clients\<close>

declare retryLoop.simps [simp del]

lemma ok_status: "ok response \<Longrightarrow> status response < 500"
  by (simp add: ok_def)

lemma retryLoop_success:
  assumes "attempt \<le> rc" "net w n = Responded response" "ok response"
    "parse response (clock w (Suc n)) = Inr x"
  shows "retryLoop w rc parse attempt n = (Inr x, Suc n)"
  using assms by (subst retryLoop.simps) (simp add: fetchWithTimeout_def)

lemma retryLoop_server_error:
  assumes "attempt < rc" "net w n = Responded response" "500 \<le> status response"
  shows "retryLoop w rc parse attempt n = retryLoop w rc parse (Suc attempt) (Suc n)"
  using assms by (subst retryLoop.simps) (simp add: fetchWithTimeout_def ok_def)

lemma retryLoop_thrown_retry:
  assumes "attempt < rc" "net w n = Aborted \<or> net w n = Rejected"
  shows "retryLoop w rc parse attempt n = retryLoop w rc parse (Suc attempt) (Suc n)"
  using assms by (subst retryLoop.simps) (auto simp add: fetchWithTimeout_def)

lemma retryLoop_parse_error_retry:
  assumes "attempt < rc" "net w n = Responded response" "status response < 500"
    "parse response (clock w (Suc n)) = Inl e"
  shows "retryLoop w rc parse attempt n = retryLoop w rc parse (Suc attempt) (Suc n)"
  using assms by (subst retryLoop.simps) (auto simp add: fetchWithTimeout_def)

lemma retryLoop_all_aborted:
  assumes "attempt \<le> rc" "\<forall>i \<le> rc - attempt. net w (n + i) = Aborted"
  shows "retryLoop w rc parse attempt n = (Inl timeoutError, n + (rc - attempt) + 1)"
  using assms
proof (induction "rc - attempt" arbitrary: attempt n)
  case 0
  then have "attempt = rc" "net w n = Aborted" by auto
  then show ?case by (subst retryLoop.simps) (simp add: fetchWithTimeout_def)
next
  case (Suc d)
  then have lt: "attempt < rc" and ab: "net w n = Aborted" by auto
  have d: "d = rc - Suc attempt" using Suc.hyps by simp
  have rest: "\<forall>i \<le> rc - Suc attempt. net w (Suc n + i) = Aborted"
  proof (intro allI impI)
    fix i assume "i \<le> rc - Suc attempt"
    then have "Suc i \<le> rc - attempt" using lt by simp
    with Suc.prems(2) have "net w (n + Suc i) = Aborted" by blast
    then show "net w (Suc n + i) = Aborted" by simp
  qed
  have "retryLoop w rc parse attempt n = retryLoop w rc parse (Suc attempt) (Suc n)"
    using lt ab by (simp add: retryLoop_thrown_retry)
  also have "\<dots> = (Inl timeoutError, Suc n + (rc - Suc attempt) + 1)"
    using Suc.hyps(1)[OF d _ rest] lt by simp
  also have "\<dots> = (Inl timeoutError, n + (rc - attempt) + 1)"
    using lt by simp
  finally show ?case .
qed

lemma promiseAll_resolve:
  "\<forall>q \<in> set qs. f q = Inr (g q) \<Longrightarrow> promiseAll (map f qs) = Inr (map g qs)"
  by (induction qs) simp_all

lemma promiseAll_reject:
  assumes "\<exists>p \<in> set ps. isl p" "\<forall>p \<in> set ps. isl p \<longrightarrow> p = Inl e"
  shows "promiseAll ps = Inl e"
  using assms
proof (induction ps rule: promiseAll.induct)
  case 1
  then show ?case by simp
next
  case (2 e' ps)
  then show ?case by simp
next
  case (3 x ps)
  then show ?case by (auto split: sum.splits)
qed

lemma list_ex_eq: "list_ex (\<lambda>q. q = b) quotes \<longleftrightarrow> b \<in> set quotes"
  by (auto simp: list_ex_iff)

text \<open>
  C7.  For every provider the selector can build, \<open>getLatestRate\<close> with the base as
  quote, and the batched \<open>getLatestRates\<close> (where the provider has it) with the base among
  the quotes, fail with the validation error, status 400, and the number of \<open>fetch\<close>
  calls made stays what it was.
\<close>

theorem same_currency_rejected:
  "getLatestRate w cfg b b n = (Inl validationError, n)
   \<and> statusCode validationError = Some 400
   \<and> (b \<in> set quotes \<longrightarrow>
        getLatestRates w cfg b quotes n =
          (if providerId cfg = ExchangerateApi then None else Some (Inl validationError, n)))"
proof (intro conjI impI)
  show "getLatestRate w cfg b b n = (Inl validationError, n)"
    by (cases "providerId cfg")
       (simp_all add: getLatestRate_def mockGetLatestRate_def requestLatestRate_def
          requestLatestRates_def)
  show "statusCode validationError = Some 400"
    by (simp add: validationError_def)
  assume mem: "b \<in> set quotes"
  have "promiseAll (map (\<lambda>q. fst (mockGetLatestRate w b q n)) quotes) = Inl validationError"
    using mem by (intro promiseAll_reject) (auto simp: mockGetLatestRate_def)
  then show "getLatestRates w cfg b quotes n =
          (if providerId cfg = ExchangerateApi then None else Some (Inl validationError, n))"
    using mem
    by (cases "providerId cfg")
       (simp_all add: getLatestRates_def mockGetLatestRates_def requestLatestRates_def list_ex_eq)
qed

theorem same_currency_rejected_witness:
  "getLatestRate (scripted [] 0 12) (exampleConfig ExchangerateApi 1 []) USD USD 0 =
     (Inl (AppError ''Base and quote currencies must differ'' 400 ''RATE_VALIDATION_ERROR''), 0)
   \<and> JPY \<in> set [EUR, JPY]
   \<and> getLatestRates (scripted [] 0 12) (exampleConfig Freecurrencyapi 1 []) JPY [EUR, JPY] 0 =
       Some (Inl (AppError ''Base and quote currencies must differ'' 400 ''RATE_VALIDATION_ERROR''), 0)
   \<and> getLatestRates (scripted [] 0 12) (exampleConfig Mock 1 []) JPY [EUR, JPY] 0 =
       Some (Inl (AppError ''Base and quote currencies must differ'' 400 ''RATE_VALIDATION_ERROR''), 0)"
  using
    same_currency_rejected [of "scripted [] 0 12" "exampleConfig ExchangerateApi 1 []" USD 0 "[]"]
    same_currency_rejected [of "scripted [] 0 12" "exampleConfig Freecurrencyapi 1 []" JPY 0 "[EUR, JPY]"]
    same_currency_rejected [of "scripted [] 0 12" "exampleConfig Mock 1 []" JPY 0 "[EUR, JPY]"]
  by (simp add: validationError_def exampleConfig_def)

text \<open>
  C10.  The batched operation of the mock provider is its single operation applied to
  each quote in turn: when no quote is the base it returns, in the order of \<open>quotes\<close>, the
  rate 1 with provider \<open>mock\<close> that \<open>getLatestRate\<close> returns for each quote; when a
  quote is the base it fails with the validation error of the single call.
\<close>

theorem mock_batch_elementwise:
  assumes "providerId cfg = Mock"
  shows "(b \<notin> set quotes \<longrightarrow>
            getLatestRates w cfg b quotes n =
              Some (Inr (map (\<lambda>q. \<lparr>base = b, quote = q, rate = 1, timestamp = Time (clock w n),
                                    provider = Mock\<rparr>) quotes), n)
            \<and> map (\<lambda>q. getLatestRate w cfg b q n) quotes =
                map (\<lambda>q. (Inr \<lparr>base = b, quote = q, rate = 1, timestamp = Time (clock w n),
                                    provider = Mock\<rparr>, n)) quotes)
       \<and> (b \<in> set quotes \<longrightarrow>
            getLatestRates w cfg b quotes n = Some (Inl validationError, n)
            \<and> getLatestRate w cfg b b n = (Inl validationError, n))"
proof (intro conjI impI)
  assume nm: "b \<notin> set quotes"
  have "promiseAll (map (\<lambda>q. fst (mockGetLatestRate w b q n)) quotes) =
        Inr (map (\<lambda>q. \<lparr>base = b, quote = q, rate = 1, timestamp = Time (clock w n),
                                    provider = Mock\<rparr>) quotes)"
    using nm by (intro promiseAll_resolve) (auto simp: mockGetLatestRate_def)
  then show "getLatestRates w cfg b quotes n =
              Some (Inr (map (\<lambda>q. \<lparr>base = b, quote = q, rate = 1, timestamp = Time (clock w n),
                                    provider = Mock\<rparr>) quotes), n)"
    using assms by (simp add: getLatestRates_def mockGetLatestRates_def)
  show "map (\<lambda>q. getLatestRate w cfg b q n) quotes =
                map (\<lambda>q. (Inr \<lparr>base = b, quote = q, rate = 1, timestamp = Time (clock w n),
                                    provider = Mock\<rparr>, n)) quotes"
    using nm assms by (auto simp: getLatestRate_def mockGetLatestRate_def)
next
  assume mem: "b \<in> set quotes"
  have "promiseAll (map (\<lambda>q. fst (mockGetLatestRate w b q n)) quotes) = Inl validationError"
    using mem by (intro promiseAll_reject) (auto simp: mockGetLatestRate_def)
  then show "getLatestRates w cfg b quotes n = Some (Inl validationError, n)"
    using assms by (simp add: getLatestRates_def mockGetLatestRates_def)
  show "getLatestRate w cfg b b n = (Inl validationError, n)"
    using assms by (simp add: getLatestRate_def mockGetLatestRate_def)
qed

theorem mock_batch_elementwise_witness:
  "providerId (exampleConfig Mock 1 []) = Mock
   \<and> USD \<notin> set [JPY, EUR]
   \<and> getLatestRates (scripted [] 5 12) (exampleConfig Mock 1 []) USD [JPY, EUR] 0 =
       Some (Inr [\<lparr>base = USD, quote = JPY, rate = 1, timestamp = Time 5, provider = Mock\<rparr>,
                  \<lparr>base = USD, quote = EUR, rate = 1, timestamp = Time 5, provider = Mock\<rparr>], 0)
   \<and> USD \<in> set [JPY, USD]
   \<and> getLatestRates (scripted [] 5 12) (exampleConfig Mock 1 []) USD [JPY, USD] 0 =
       Some (Inl (AppError ''Base and quote currencies must differ'' 400 ''RATE_VALIDATION_ERROR''), 0)"
  using
    mock_batch_elementwise [of "exampleConfig Mock 1 []" USD "[JPY, EUR]" "scripted [] 5 12" 0]
    mock_batch_elementwise [of "exampleConfig Mock 1 []" USD "[JPY, USD]" "scripted [] 5 12" 0]
  by (simp add: validationError_def exampleConfig_def scripted_def)


lemma ensureApiKey_present: "apiKey cfg = Some k \<Longrightarrow> k \<noteq> [] \<Longrightarrow> ensureApiKey msg cfg = Inr k"
  by (simp add: ensureApiKey_def)

lemma retryLoop_step:
  assumes "retryLoop w rc parse attempt n = r" "attempt \<le> rc"
  shows "snd r = Suc n \<or> (attempt < rc \<and> r = retryLoop w rc parse (Suc attempt) (Suc n))"
  using assms by (subst (asm) retryLoop.simps) (auto split: sum.splits if_splits)

lemma retryLoop_makes_call: "attempt \<le> rc \<Longrightarrow> Suc n \<le> snd (retryLoop w rc parse attempt n)"
proof (induction "rc - attempt" arbitrary: attempt n)
  case 0
  then show ?case
    using retryLoop_step[OF refl, of attempt rc w parse n] by auto
next
  case (Suc d)
  from Suc.prems consider "snd (retryLoop w rc parse attempt n) = Suc n"
    | "attempt < rc" "retryLoop w rc parse attempt n = retryLoop w rc parse (Suc attempt) (Suc n)"
    using retryLoop_step[OF refl, of attempt rc w parse n] by auto
  then show ?case
  proof cases
    case 1
    then show ?thesis by simp
  next
    case 2
    have "Suc (Suc n) \<le> snd (retryLoop w rc parse (Suc attempt) (Suc n))"
      using Suc.hyps(1)[of "Suc attempt" "Suc n"] Suc.hyps(2) 2(1) by simp
    with 2(2) show ?thesis by simp
  qed
qed

lemmas eval_defs = requestLatestRate_def requestLatestRates_def retryLoop.simps ensureApiKey_def
  exampleConfig_def scripted_def fetchWithTimeout_def retryCountOf_def ok_def parseResponseER_def
  parseResponseFC_def mappedStatus_def providerError_def badBodyError_def failFC_def
  parseTimestamp_def timeoutError_def requestFailedError_def invalidJsonError_def invalidRateError_def
  validationError_def retriesExhaustedError_def


text \<open>
  C5.  With a retry budget of at least one (the default is 1), when the first attempt of a
  call gets a response with a status of 500 or more and the next attempt gets a 2xx
  response that \<open>parseResponse\<close> accepts, the call returns the parsed result of that
  response, after two calls of \<open>fetch\<close>; it is the result of the call that starts at the
  second round trip, for which the failed attempt never happened.  This holds for
  \<open>requestLatestRate\<close> of the ExchangeRate-API client and for \<open>requestLatestRates\<close> of the
  Freecurrencyapi client.
\<close>

theorem retry_invisible_on_success:
  assumes "1 \<le> retryCountOf cfg" "apiKey cfg = Some k" "k \<noteq> []"
    and "net w n = Responded r1" "500 \<le> status r1"
    and "net w (Suc n) = Responded r2" "ok r2"
  shows "(b \<noteq> q \<longrightarrow> parseResponseER w r2 b q (clock w (n + 2)) = Inr x \<longrightarrow>
            requestLatestRate w cfg b q n = (Inr x, n + 2)
            \<and> fst (requestLatestRate w cfg b q (Suc n)) = Inr x)
       \<and> (b \<notin> set quotes \<longrightarrow> parseResponseFC w r2 b quotes (clock w (n + 2)) = Inr xs \<longrightarrow>
            requestLatestRates w cfg b quotes n = (Inr xs, n + 2)
            \<and> fst (requestLatestRates w cfg b quotes (Suc n)) = Inr xs)"
proof -
  have lt: "0 < retryCountOf cfg" using assms(1) by simp
  have again: "retryLoop w (retryCountOf cfg) parse 0 n = retryLoop w (retryCountOf cfg) parse (Suc 0) (Suc n)"
    for parse :: "Response \<Rightarrow> int \<Rightarrow> error + 'a"
    using lt assms(4,5) by (rule retryLoop_server_error)
  have done1: "parse r2 (clock w (Suc (Suc n))) = Inr y \<Longrightarrow>
      retryLoop w (retryCountOf cfg) parse attempt (Suc n) = (Inr y, Suc (Suc n))"
    if "attempt \<le> retryCountOf cfg"
    for parse :: "Response \<Rightarrow> int \<Rightarrow> error + 'a" and y attempt
    using that assms(6,7) by (simp add: retryLoop_success)
  show ?thesis
  proof (intro conjI impI)
    assume "b \<noteq> q" and p: "parseResponseER w r2 b q (clock w (n + 2)) = Inr x"
    then show "requestLatestRate w cfg b q n = (Inr x, n + 2)"
      using assms(1) by (simp add: requestLatestRate_def ensureApiKey_present[OF assms(2,3)] again done1)
    show "fst (requestLatestRate w cfg b q (Suc n)) = Inr x"
      using \<open>b \<noteq> q\<close> p by (simp add: requestLatestRate_def ensureApiKey_present[OF assms(2,3)] done1)
  next
    assume nb: "b \<notin> set quotes" and p: "parseResponseFC w r2 b quotes (clock w (n + 2)) = Inr xs"
    then show "requestLatestRates w cfg b quotes n = (Inr xs, n + 2)"
      using assms(1)
      by (simp add: requestLatestRates_def list_ex_eq ensureApiKey_present[OF assms(2,3)] again done1)
    show "fst (requestLatestRates w cfg b quotes (Suc n)) = Inr xs"
      using nb p
      by (simp add: requestLatestRates_def list_ex_eq ensureApiKey_present[OF assms(2,3)] done1)
  qed
qed

theorem retry_invisible_on_success_witness:
  "1 \<le> retryCountOf (exampleConfig ExchangerateApi 1 [])
   \<and> net (scripted [Responded \<lparr>status = 500, body = Some (JObj [(''result'', JStr ''error''), (''error-type'', JStr ''server-error'')])\<rparr>, Responded \<lparr>status = 200, body = Some (JObj [(''result'', JStr ''success''), (''conversion_rate'', JNum 1.1)])\<rparr>] 0 12) 0 = Responded \<lparr>status = 500, body = Some (JObj [(''result'', JStr ''error''), (''error-type'', JStr ''server-error'')])\<rparr>
   \<and> net (scripted [Responded \<lparr>status = 500, body = Some (JObj [(''result'', JStr ''error''), (''error-type'', JStr ''server-error'')])\<rparr>, Responded \<lparr>status = 200, body = Some (JObj [(''result'', JStr ''success''), (''conversion_rate'', JNum 1.1)])\<rparr>] 0 12) 1 = Responded \<lparr>status = 200, body = Some (JObj [(''result'', JStr ''success''), (''conversion_rate'', JNum 1.1)])\<rparr>
   \<and> requestLatestRate (scripted [Responded \<lparr>status = 500, body = Some (JObj [(''result'', JStr ''error''), (''error-type'', JStr ''server-error'')])\<rparr>, Responded \<lparr>status = 200, body = Some (JObj [(''result'', JStr ''success''), (''conversion_rate'', JNum 1.1)])\<rparr>] 0 12) (exampleConfig ExchangerateApi 1 []) USD EUR 0 =
       (Inr \<lparr>base = USD, quote = EUR, rate = 1.1, timestamp = Time 2000, provider = ExchangerateApi\<rparr>, 2)
   \<and> fst (requestLatestRate (scripted [Responded \<lparr>status = 500, body = Some (JObj [(''result'', JStr ''error''), (''error-type'', JStr ''server-error'')])\<rparr>, Responded \<lparr>status = 200, body = Some (JObj [(''result'', JStr ''success''), (''conversion_rate'', JNum 1.1)])\<rparr>] 0 12) (exampleConfig ExchangerateApi 1 []) USD EUR 1) =
       Inr \<lparr>base = USD, quote = EUR, rate = 1.1, timestamp = Time 2000, provider = ExchangerateApi\<rparr>
   \<and> requestLatestRates (scripted [Responded \<lparr>status = 503, body = None\<rparr>, Responded \<lparr>status = 200, body = Some (JObj [(''data'', JObj [(''JPY'', JNum 150.5), (''EUR'', JNum 0.92)])])\<rparr>] 0 12) (exampleConfig Freecurrencyapi 1 []) USD [JPY, EUR] 0 =
       (Inr [\<lparr>base = USD, quote = JPY, rate = 150.5, timestamp = Time 2000, provider = Freecurrencyapi\<rparr>, \<lparr>base = USD, quote = EUR, rate = 0.92, timestamp = Time 2000, provider = Freecurrencyapi\<rparr>], 2)"
  using
    retry_invisible_on_success [of "exampleConfig ExchangerateApi 1 []" "''test-key''"
      "scripted [Responded \<lparr>status = 500, body = Some (JObj [(''result'', JStr ''error''), (''error-type'', JStr ''server-error'')])\<rparr>, Responded \<lparr>status = 200, body = Some (JObj [(''result'', JStr ''success''), (''conversion_rate'', JNum 1.1)])\<rparr>] 0 12" 0
      "\<lparr>status = 500, body = Some (JObj [(''result'', JStr ''error''), (''error-type'', JStr ''server-error'')])\<rparr>" "\<lparr>status = 200, body = Some (JObj [(''result'', JStr ''success''), (''conversion_rate'', JNum 1.1)])\<rparr>" USD EUR
      "\<lparr>base = USD, quote = EUR, rate = 1.1, timestamp = Time 2000, provider = ExchangerateApi\<rparr>" "[]" "[]"]
    retry_invisible_on_success [of "exampleConfig Freecurrencyapi 1 []" "''test-key''"
      "scripted [Responded \<lparr>status = 503, body = None\<rparr>, Responded \<lparr>status = 200, body = Some (JObj [(''data'', JObj [(''JPY'', JNum 150.5), (''EUR'', JNum 0.92)])])\<rparr>] 0 12" 0
      "\<lparr>status = 503, body = None\<rparr>" "\<lparr>status = 200, body = Some (JObj [(''data'', JObj [(''JPY'', JNum 150.5), (''EUR'', JNum 0.92)])])\<rparr>" USD USD
      "\<lparr>base = USD, quote = EUR, rate = 1.1, timestamp = Time 2000, provider = ExchangerateApi\<rparr>" "[JPY, EUR]"
      "[\<lparr>base = USD, quote = JPY, rate = 150.5, timestamp = Time 2000, provider = Freecurrencyapi\<rparr>, \<lparr>base = USD, quote = EUR, rate = 0.92, timestamp = Time 2000, provider = Freecurrencyapi\<rparr>]"]
  by (simp add: eval_defs)

text \<open>
  C2, as the code has it.  A timed-out attempt is thrown into the \<open>catch\<close> block of the
  loop like every other failure: it is re-issued while the retry budget lasts, and the
  call fails with the Timeout error (status 504) when the last attempt of the budget
  times out.  So a call whose every attempt times out fails with Timeout after exactly
  \<open>retryCount + 1\<close> calls of \<open>fetch\<close> (one call when \<open>retryCount\<close> is 0), and with a budget
  of at least one a timeout of the first attempt is followed by a second call of \<open>fetch\<close>.
\<close>

theorem timeout_until_budget_spent:
  assumes "apiKey cfg = Some k" "k \<noteq> []"
  shows "((\<forall>i \<le> retryCountOf cfg. net w (n + i) = Aborted) \<longrightarrow>
            statusCode timeoutError = Some 504
            \<and> (b \<noteq> q \<longrightarrow> requestLatestRate w cfg b q n = (Inl timeoutError, n + retryCountOf cfg + 1))
            \<and> (b \<notin> set quotes \<longrightarrow>
                 requestLatestRates w cfg b quotes n = (Inl timeoutError, n + retryCountOf cfg + 1)))
       \<and> (net w n = Aborted \<longrightarrow> 1 \<le> retryCountOf cfg \<longrightarrow>
            (b \<noteq> q \<longrightarrow> n + 2 \<le> snd (requestLatestRate w cfg b q n))
            \<and> (b \<notin> set quotes \<longrightarrow> n + 2 \<le> snd (requestLatestRates w cfg b quotes n)))"
proof (intro conjI impI)
  show "statusCode timeoutError = Some 504" by (simp add: timeoutError_def)
next
  assume "\<forall>i \<le> retryCountOf cfg. net w (n + i) = Aborted" "b \<noteq> q"
  then show "requestLatestRate w cfg b q n = (Inl timeoutError, n + retryCountOf cfg + 1)"
    using retryLoop_all_aborted[of 0 "retryCountOf cfg" w n]
    by (simp add: requestLatestRate_def ensureApiKey_present[OF assms])
next
  assume "\<forall>i \<le> retryCountOf cfg. net w (n + i) = Aborted" "b \<notin> set quotes"
  then show "requestLatestRates w cfg b quotes n = (Inl timeoutError, n + retryCountOf cfg + 1)"
    using retryLoop_all_aborted[of 0 "retryCountOf cfg" w n]
    by (simp add: requestLatestRates_def list_ex_eq ensureApiKey_present[OF assms])
next
  assume a: "net w n = Aborted" "1 \<le> retryCountOf cfg" and "b \<noteq> q"
  then show "n + 2 \<le> snd (requestLatestRate w cfg b q n)"
    using retryLoop_makes_call[of "Suc 0" "retryCountOf cfg" "Suc n" w]
    by (simp add: requestLatestRate_def ensureApiKey_present[OF assms] retryLoop_thrown_retry)
next
  assume a: "net w n = Aborted" "1 \<le> retryCountOf cfg" and "b \<notin> set quotes"
  then show "n + 2 \<le> snd (requestLatestRates w cfg b quotes n)"
    using retryLoop_makes_call[of "Suc 0" "retryCountOf cfg" "Suc n" w]
    by (simp add: requestLatestRates_def list_ex_eq ensureApiKey_present[OF assms] retryLoop_thrown_retry)
qed

theorem timeout_until_budget_spent_witness:
  "retryCountOf (exampleConfig ExchangerateApi 1 []) = 1
   \<and> net (scripted [Aborted, Aborted] 0 12) 0 = Aborted
   \<and> net (scripted [Aborted, Aborted] 0 12) 1 = Aborted
   \<and> requestLatestRate (scripted [Aborted, Aborted] 0 12) (exampleConfig ExchangerateApi 1 []) USD EUR 0 =
       (Inl (AppError ''Rate provider request timed out'' 504 ''RATE_PROVIDER_TIMEOUT''), 2)
   \<and> requestLatestRates (scripted [Aborted, Aborted] 0 12) (exampleConfig Freecurrencyapi 0 []) USD [EUR] 0 =
       (Inl (AppError ''Rate provider request timed out'' 504 ''RATE_PROVIDER_TIMEOUT''), 1)
   \<and> 0 + 2 \<le> snd (requestLatestRate (scripted [Aborted, Aborted] 0 12) (exampleConfig ExchangerateApi 1 []) USD EUR 0)"
  using
    timeout_until_budget_spent [of "exampleConfig ExchangerateApi 1 []" "''test-key''"
      "scripted [Aborted, Aborted] 0 12" 0 USD EUR "[]"]
    timeout_until_budget_spent [of "exampleConfig Freecurrencyapi 0 []" "''test-key''"
      "scripted [Aborted, Aborted] 0 12" 0 USD USD "[EUR]"]
  by (simp add: exampleConfig_def scripted_def retryCountOf_def timeoutError_def less_Suc_eq_le[symmetric] less_Suc_eq)

text \<open>
  C2 as stated fails: with the default budget of one retry, a first attempt that times
  out is followed by a second call of \<open>fetch\<close>, and when that one succeeds the call
  returns the rate instead of failing with Timeout.
\<close>

theorem timeout_is_retried_counterexample:
  "net (scripted [Aborted, Responded \<lparr>status = 200, body = Some (JObj [(''result'', JStr ''success''), (''conversion_rate'', JNum 1.1)])\<rparr>] 0 12) 0 = Aborted
   \<and> requestLatestRate (scripted [Aborted, Responded \<lparr>status = 200, body = Some (JObj [(''result'', JStr ''success''), (''conversion_rate'', JNum 1.1)])\<rparr>] 0 12)
         (exampleConfig ExchangerateApi 1 []) USD EUR 0 =
       (Inr \<lparr>base = USD, quote = EUR, rate = 1.1, timestamp = Time 2000, provider = ExchangerateApi\<rparr>, 2)"
  by (simp add: eval_defs)

text \<open>
  C6 at a concrete run.  With the default budget of one retry, a 404 response to the first
  attempt reaches \<open>parseResponse\<close>, whose \<open>AppError\<close> is thrown inside the \<open>try\<close> block of
  the loop and caught there, so the request is issued a second time: when the second
  response is a success the call returns its rate, and when it is another 404 the call
  fails with status 404 after two calls of \<open>fetch\<close>.
\<close>

theorem not_found_is_retried:
  "requestLatestRate
     (scripted [Responded \<lparr>status = 404, body = Some (JObj [(''result'', JStr ''error''), (''error-type'', JStr ''unsupported-code'')])\<rparr>,
                Responded \<lparr>status = 200, body = Some (JObj [(''result'', JStr ''success''), (''conversion_rate'', JNum 1.1)])\<rparr>] 0 12)
     (exampleConfig ExchangerateApi 1 []) USD EUR 0 =
     (Inr \<lparr>base = USD, quote = EUR, rate = 1.1, timestamp = Time 2000, provider = ExchangerateApi\<rparr>, 2)
   \<and> requestLatestRates
     (scripted [Responded \<lparr>status = 404, body = Some (JObj [(''message'', JStr ''not found'')])\<rparr>,
                Responded \<lparr>status = 404, body = Some (JObj [(''message'', JStr ''not found'')])\<rparr>] 0 12)
     (exampleConfig Freecurrencyapi 1 []) USD [JPY] 0 =
     (Inl (AppError ''Rate provider request failed'' 404 ''RATE_PROVIDER_ERROR''), 2)"
  by (simp add: eval_defs)

text \<open>
  C4 at a concrete run.  \<open>parseResponse\<close> checks that the rate is a number and nothing
  else: a 2xx response whose rate is \<open>-1\<close> (ExchangeRate-API) or \<open>0\<close> (Freecurrencyapi)
  yields an \<open>ExchangeRate\<close> with that rate, for the requested base and quote.
\<close>

theorem nonpositive_rate_accepted:
  "requestLatestRate
     (scripted [Responded \<lparr>status = 200, body = Some (JObj [(''result'', JStr ''success''), (''conversion_rate'', JNum (-1))])\<rparr>] 0 12)
     (exampleConfig ExchangerateApi 1 []) USD EUR 0 =
     (Inr \<lparr>base = USD, quote = EUR, rate = -1, timestamp = Time 1000, provider = ExchangerateApi\<rparr>, 1)
   \<and> requestLatestRates
     (scripted [Responded \<lparr>status = 200, body = Some (JObj [(''data'', JObj [(''JPY'', JNum 0)])])\<rparr>] 0 12)
     (exampleConfig Freecurrencyapi 1 []) USD [JPY] 0 =
     (Inr [\<lparr>base = USD, quote = JPY, rate = 0, timestamp = Time 1000, provider = Freecurrencyapi\<rparr>], 1)"
  by (simp add: eval_defs)

section \<open>Properties of the fetcher\<close>


lemma markStale_other:
  "k \<notin> key b ` set quotes \<Longrightarrow> markStale now ttl b quotes st k = st k"
  by (induction quotes arbitrary: st) (auto simp: getRate_def withStale_def split: option.splits)

lemma markStale_lookup:
  "q \<in> set quotes \<Longrightarrow>
   markStale now ttl b quotes st (key b q) =
     map_option (\<lambda>old. \<lparr>base = b, quote = q, rate = rate old, timestamp = timestamp old,
                         provider = provider old, stale = True\<rparr>) (st (key b q))"
proof (induction quotes arbitrary: st)
  case Nil
  then show ?case by simp
next
  case (Cons a quotes)
  show ?case
  proof (cases "q \<in> set quotes")
    case True
    show ?thesis
      by (cases "a = q")
         (auto simp: Cons.IH[OF True] getRate_def withStale_def key_inj split: option.splits)
  next
    case False
    with Cons.prems have "a = q" by simp
    moreover have "key b q \<notin> key b ` set quotes"
      using False by (auto simp: key_inj)
    ultimately show ?thesis
      by (auto simp: markStale_other getRate_def withStale_def split: option.splits)
  qed
qed

lemma collectRates_base:
  "collectRates dat b ts quotes acc = Inr rates \<Longrightarrow> \<forall>r \<in> set acc. base r = b \<Longrightarrow>
   \<forall>r \<in> set rates. base r = b"
proof (induction quotes arbitrary: acc)
  case Nil
  then show ?case by simp
next
  case (Cons q quotes)
  from Cons.prems(1) obtain n where
    "collectRates dat b ts quotes
       (acc @ [\<lparr>base = b, quote = q, rate = n, timestamp = ts, provider = Freecurrencyapi\<rparr>]) = Inr rates"
    by (auto split: if_splits option.splits json.splits)
  then show ?case
    by (rule Cons.IH) (use Cons.prems(2) in auto)
qed

lemma parseResponseFC_base:
  "parseResponseFC w response b quotes now = Inr rates \<Longrightarrow> \<forall>r \<in> set rates. base r = b"
  by (auto simp: parseResponseFC_def failFC_def split: option.splits if_splits sum.splits bool.splits
      dest!: collectRates_base)

lemma parseResponseER_base:
  "parseResponseER w response b q now = Inr r \<Longrightarrow> base r = b \<and> quote r = q"
  by (auto simp: parseResponseER_def split: option.splits if_splits json.splits)

lemma retryLoop_result:
  "retryLoop w rc parse attempt n = (Inr x, n') \<Longrightarrow> \<exists>response now. parse response now = Inr x"
proof (induction w rc parse attempt n rule: retryLoop.induct)
  case (1 w rc parse attempt n)
  from "1.prems" show ?case
    apply (subst (asm) retryLoop.simps)
    apply (auto split: if_splits sum.splits dest: "1.IH")
    done
qed

lemma requestLatestRate_base:
  "requestLatestRate w cfg b q n = (Inr r, n') \<Longrightarrow> base r = b \<and> quote r = q"
  by (auto simp: requestLatestRate_def split: if_splits sum.splits
      dest!: retryLoop_result parseResponseER_base)

lemma requestLatestRates_base:
  "requestLatestRates w cfg b quotes n = (Inr rates, n') \<Longrightarrow> \<forall>r \<in> set rates. base r = b"
  by (auto simp: requestLatestRates_def split: if_splits sum.splits
      dest!: retryLoop_result parseResponseFC_base)

lemma getLatestRate_base:
  "getLatestRate w cfg b q n = (Inr r, n') \<Longrightarrow> base r = b"
  by (cases "providerId cfg")
     (auto simp: getLatestRate_def mockGetLatestRate_def
        split: if_splits sum.splits prod.splits list.splits
        dest: requestLatestRate_base requestLatestRates_base)

lemma promiseAll_set:
  "promiseAll ps = Inr xs \<Longrightarrow> x \<in> set xs \<Longrightarrow> Inr x \<in> set ps"
  by (induction ps arbitrary: xs rule: promiseAll.induct) (auto split: sum.splits)

lemma mockGetLatestRates_base:
  assumes "mockGetLatestRates w b quotes n = (Inr rates, n')"
  shows "\<forall>r \<in> set rates. base r = b"
proof
  fix r assume "r \<in> set rates"
  with assms have "Inr r \<in> set (map (\<lambda>q. fst (mockGetLatestRate w b q n)) quotes)"
    by (auto simp: mockGetLatestRates_def dest: promiseAll_set)
  then obtain q where "fst (mockGetLatestRate w b q n) = Inr r" by auto
  then show "base r = b"
    by (auto simp: mockGetLatestRate_def split: if_splits)
qed

lemma fetchSequential_base:
  "fetchSequential w cfg b quotes acc n = (Inr rates, n') \<Longrightarrow> \<forall>r \<in> set acc. base r = b \<Longrightarrow>
   \<forall>r \<in> set rates. base r = b"
proof (induction quotes arbitrary: acc n)
  case Nil
  then show ?case by simp
next
  case (Cons q quotes)
  from Cons.prems(1) obtain r n1 where
    g: "getLatestRate w cfg b q n = (Inr r, n1)" and
    f: "fetchSequential w cfg b quotes (acc @ [r]) n1 = (Inr rates, n')"
    by (auto split: prod.splits sum.splits)
  from g have "base r = b" by (rule getLatestRate_base)
  with Cons.prems(2) have "\<forall>x \<in> set (acc @ [r]). base x = b" by simp
  with f show ?case by (rule Cons.IH)
qed

lemma tryFetch_base:
  "tryFetch w cfg b quotes n = (Inr rates, n') \<Longrightarrow> \<forall>r \<in> set rates. base r = b"
  by (cases "providerId cfg")
     (auto simp: tryFetch_def getLatestRates_def
        dest: mockGetLatestRates_base requestLatestRates_base fetchSequential_base)

lemma fetchForBase_failed:
  assumes "fst (tryFetch w cfg b quotes (calls s)) = Inl err"
  shows "rateStore (fetchForBase w cfg b quotes s) =
           markStale (clock w (snd (tryFetch w cfg b quotes (calls s)))) (cacheTtlMs cfg) b quotes
             (rateStore s)"
  using assms by (cases "tryFetch w cfg b quotes (calls s)") (simp add: fetchForBase_def)

lemma fetchForBase_other_base:
  assumes "b' \<noteq> b"
  shows "rateStore (fetchForBase w cfg b' quotes s) (key b q) = rateStore s (key b q)"
proof (cases "tryFetch w cfg b' quotes (calls s)")
  case (Pair res n')
  show ?thesis
  proof (cases res)
    case (Inl e)
    have "key b q \<notin> key b' ` set quotes" using assms by (auto simp: key_inj)
    then show ?thesis using Pair Inl by (simp add: fetchForBase_def markStale_other)
  next
    case (Inr rates)
    with Pair have "\<forall>r \<in> set rates. base r = b'" by (auto dest: tryFetch_base)
    then have "forPair b q rates = []" using assms by (auto simp: forPair_def filter_empty_conv)
    then show ?thesis using Pair Inr by (simp add: fetchForBase_def saveRates_other)
  qed
qed

lemma runGroups_other:
  "b \<notin> fst ` set groups \<Longrightarrow> rateStore (runGroups w cfg groups s) (key b q) = rateStore s (key b q)"
  by (induction groups arbitrary: s) (auto simp: fetchForBase_other_base)

lemma runGroups_append:
  "runGroups w cfg (xs @ ys) s = runGroups w cfg ys (runGroups w cfg xs s)"
  by (induction xs arbitrary: s) auto

lemma pushQuote_keys: "map fst (pushQuote b q grouped) = map fst grouped"
  by (induction grouped) (auto simp: pushQuote_def)

lemma groupInto_distinct:
  "distinct (map fst grouped) \<Longrightarrow> distinct (map fst (groupInto grouped ps))"
proof (induction ps arbitrary: grouped)
  case Nil
  then show ?case by simp
next
  case (Cons p ps)
  obtain b q where p: "p = (b, q)" by (cases p)
  have "distinct (map fst (pushQuote b q (if b \<in> fst ` set grouped then grouped else grouped @ [(b, [])])))"
    using Cons.prems by (auto simp: pushQuote_keys)
  then show ?case
    unfolding p groupInto.simps by (rule Cons.IH)
qed

lemma groupByBase_distinct: "distinct (map fst (groupByBase ps))"
  by (simp add: groupByBase_def groupInto_distinct)

lemma map_of_pushQuote:
  "map_of (pushQuote b0 q0 g) b =
     (if b = b0 then map_option (\<lambda>quotes. quotes @ [q0]) (map_of g b) else map_of g b)"
  by (induction g) (auto simp: pushQuote_def)

lemma groupInto_quotes:
  "distinct (map fst grouped) \<Longrightarrow> (b, quotes) \<in> set (groupInto grouped ps) \<Longrightarrow>
   quotes = (case map_of grouped b of None \<Rightarrow> [] | Some quotes0 \<Rightarrow> quotes0)
              @ map snd (filter (\<lambda>p. fst p = b) ps)"
proof (induction ps arbitrary: grouped)
  case Nil
  then show ?case by simp
next
  case (Cons p ps)
  obtain b0 q0 where p: "p = (b0, q0)" by (cases p)
  let ?g = "if b0 \<in> fst ` set grouped then grouped else grouped @ [(b0, [])]"
  have d: "distinct (map fst (pushQuote b0 q0 ?g))"
    using Cons.prems(1) by (auto simp: pushQuote_keys)
  have m: "(b, quotes) \<in> set (groupInto (pushQuote b0 q0 ?g) ps)"
    using Cons.prems(2) by (simp add: p)
  have look: "map_of ?g b0 = Some (case map_of grouped b0 of None \<Rightarrow> [] | Some x \<Rightarrow> x)"
  proof (cases "b0 \<in> fst ` set grouped")
    case True
    then have "map_of grouped b0 \<noteq> None" by (simp add: map_of_eq_None_iff)
    then show ?thesis using True by auto
  next
    case False
    then have "map_of grouped b0 = None" by (simp add: map_of_eq_None_iff)
    then show ?thesis using False by (simp add: map_add_def)
  qed
  have other: "b \<noteq> b0 \<Longrightarrow> map_of ?g b = map_of grouped b"
    by (auto simp: map_add_def split: option.splits)
  show ?case
    using Cons.IH[OF d m] look other
    by (cases "b = b0") (simp_all add: p map_of_pushQuote)
qed

lemma groupByBase_quotes:
  "(b, quotes) \<in> set (groupByBase ps) \<Longrightarrow> quotes = map snd (filter (\<lambda>p. fst p = b) ps)"
  using groupInto_quotes[of "[]" b quotes ps] by (simp add: groupByBase_def)

lemma fetchSequential_append:
  "fetchSequential w cfg b (xs @ ys) acc n =
     (case fetchSequential w cfg b xs acc n of
        (Inl e, n') \<Rightarrow> (Inl e, n')
      | (Inr got, n') \<Rightarrow> fetchSequential w cfg b ys got n')"
  by (induction xs arbitrary: acc n) (auto split: prod.splits sum.splits)

lemmas fetch_eval_defs = getLatestRates_def getLatestRate_def tryFetch_def fetchForBase_def key_def
  runFetch_def withinActiveWindow_def getHourInTimezone_def groupByBase_def pushQuote_def
  getRate_def isExpired_def withStale_def

text \<open>
  C9.  With a provider that has no batched \<open>getLatestRates\<close>, when the fetch of some quote
  of the base fails after the quotes before it were fetched successfully, none of the
  rates fetched is saved: every quote of the base keeps the rate, timestamp and provider
  it had in the store, now with \<open>stale = true\<close>, or stays absent, and no other key of
  the store changes.
\<close>

theorem sequential_fetch_all_or_nothing:
  assumes "getLatestRates w cfg b quotes (calls s) = None"
    and "quotes = earlier @ q # later"
    and "fetchSequential w cfg b earlier [] (calls s) = (Inr fetched, n1)"
    and "fst (getLatestRate w cfg b q n1) = Inl err"
  shows "(\<forall>q' \<in> set quotes.
            rateStore (fetchForBase w cfg b quotes s) (key b q') =
              map_option (\<lambda>old. \<lparr>base = b, quote = q', rate = rate old, timestamp = timestamp old,
                                  provider = provider old, stale = True\<rparr>)
                (rateStore s (key b q')))
       \<and> (\<forall>k. k \<notin> key b ` set quotes \<longrightarrow>
            rateStore (fetchForBase w cfg b quotes s) k = rateStore s k)"
proof -
  obtain n2 where g: "getLatestRate w cfg b q n1 = (Inl err, n2)"
    using assms(4) by (cases "getLatestRate w cfg b q n1") simp
  have "fetchSequential w cfg b quotes [] (calls s) = (Inl err, n2)"
    by (simp add: assms(2,3) fetchSequential_append g)
  then have "fst (tryFetch w cfg b quotes (calls s)) = Inl err"
    by (simp add: tryFetch_def assms(1))
  then have "rateStore (fetchForBase w cfg b quotes s) =
           markStale (clock w (snd (tryFetch w cfg b quotes (calls s)))) (cacheTtlMs cfg) b quotes
             (rateStore s)"
    by (rule fetchForBase_failed)
  then show ?thesis
    by (simp add: markStale_lookup markStale_other)
qed

theorem sequential_fetch_all_or_nothing_witness:
  "getLatestRates (scripted [Responded \<lparr>status = 200, body = Some (JObj [(''result'', JStr ''success''), (''conversion_rate'', JNum 150.5)])\<rparr>, Rejected, Rejected] 0 12) (exampleConfig ExchangerateApi 1 [(USD, JPY), (USD, EUR)]) USD [JPY, EUR] 0 = None
   \<and> fetchSequential (scripted [Responded \<lparr>status = 200, body = Some (JObj [(''result'', JStr ''success''), (''conversion_rate'', JNum 150.5)])\<rparr>, Rejected, Rejected] 0 12) (exampleConfig ExchangerateApi 1 [(USD, JPY), (USD, EUR)]) USD [JPY] [] 0 =
       (Inr [\<lparr>base = USD, quote = JPY, rate = 150.5, timestamp = Time 1000, provider = ExchangerateApi\<rparr>], 1)
   \<and> fst (getLatestRate (scripted [Responded \<lparr>status = 200, body = Some (JObj [(''result'', JStr ''success''), (''conversion_rate'', JNum 150.5)])\<rparr>, Rejected, Rejected] 0 12) (exampleConfig ExchangerateApi 1 [(USD, JPY), (USD, EUR)]) USD EUR 1) =
       Inl (AppError ''Rate provider request failed'' 503 ''RATE_PROVIDER_REQUEST_FAILED'')
   \<and> rateStore (fetchForBase (scripted [Responded \<lparr>status = 200, body = Some (JObj [(''result'', JStr ''success''), (''conversion_rate'', JNum 150.5)])\<rparr>, Rejected, Rejected] 0 12) (exampleConfig ExchangerateApi 1 [(USD, JPY), (USD, EUR)]) USD [JPY, EUR]
         \<lparr>rateStore = [key USD EUR \<mapsto> \<lparr>base = USD, quote = EUR, rate = 0.9, timestamp = Time 100, provider = ExchangerateApi, stale = False\<rparr>], calls = 0\<rparr>) (key USD JPY) = None
   \<and> rateStore (fetchForBase (scripted [Responded \<lparr>status = 200, body = Some (JObj [(''result'', JStr ''success''), (''conversion_rate'', JNum 150.5)])\<rparr>, Rejected, Rejected] 0 12) (exampleConfig ExchangerateApi 1 [(USD, JPY), (USD, EUR)]) USD [JPY, EUR]
         \<lparr>rateStore = [key USD EUR \<mapsto> \<lparr>base = USD, quote = EUR, rate = 0.9, timestamp = Time 100, provider = ExchangerateApi, stale = False\<rparr>], calls = 0\<rparr>) (key USD EUR) =
       Some \<lparr>base = USD, quote = EUR, rate = 0.9, timestamp = Time 100, provider = ExchangerateApi, stale = True\<rparr>"
proof -
  have h1: "getLatestRates (scripted [Responded \<lparr>status = 200, body = Some (JObj [(''result'', JStr ''success''), (''conversion_rate'', JNum 150.5)])\<rparr>, Rejected, Rejected] 0 12) (exampleConfig ExchangerateApi 1 [(USD, JPY), (USD, EUR)]) USD [JPY, EUR]
      (calls \<lparr>rateStore = [key USD EUR \<mapsto> \<lparr>base = USD, quote = EUR, rate = 0.9, timestamp = Time 100, provider = ExchangerateApi, stale = False\<rparr>], calls = 0\<rparr>) = None"
    by (simp add: eval_defs fetch_eval_defs)
  have h2: "[JPY, EUR] = [JPY] @ EUR # []"
    by simp
  have h3: "fetchSequential (scripted [Responded \<lparr>status = 200, body = Some (JObj [(''result'', JStr ''success''), (''conversion_rate'', JNum 150.5)])\<rparr>, Rejected, Rejected] 0 12) (exampleConfig ExchangerateApi 1 [(USD, JPY), (USD, EUR)]) USD [JPY] []
      (calls \<lparr>rateStore = [key USD EUR \<mapsto> \<lparr>base = USD, quote = EUR, rate = 0.9, timestamp = Time 100, provider = ExchangerateApi, stale = False\<rparr>], calls = 0\<rparr>) =
      (Inr [\<lparr>base = USD, quote = JPY, rate = 150.5, timestamp = Time 1000, provider = ExchangerateApi\<rparr>], 1)"
    by (simp add: eval_defs fetch_eval_defs)
  have h4: "fst (getLatestRate (scripted [Responded \<lparr>status = 200, body = Some (JObj [(''result'', JStr ''success''), (''conversion_rate'', JNum 150.5)])\<rparr>, Rejected, Rejected] 0 12) (exampleConfig ExchangerateApi 1 [(USD, JPY), (USD, EUR)]) USD EUR 1) =
      Inl (AppError ''Rate provider request failed'' 503 ''RATE_PROVIDER_REQUEST_FAILED'')"
    by (simp add: eval_defs fetch_eval_defs)
  from sequential_fetch_all_or_nothing [OF h1 h2 h3 h4]
  have "rateStore (fetchForBase (scripted [Responded \<lparr>status = 200, body = Some (JObj [(''result'', JStr ''success''), (''conversion_rate'', JNum 150.5)])\<rparr>, Rejected, Rejected] 0 12) (exampleConfig ExchangerateApi 1 [(USD, JPY), (USD, EUR)]) USD [JPY, EUR]
         \<lparr>rateStore = [key USD EUR \<mapsto> \<lparr>base = USD, quote = EUR, rate = 0.9, timestamp = Time 100, provider = ExchangerateApi, stale = False\<rparr>], calls = 0\<rparr>) (key USD JPY) = None"
    and "rateStore (fetchForBase (scripted [Responded \<lparr>status = 200, body = Some (JObj [(''result'', JStr ''success''), (''conversion_rate'', JNum 150.5)])\<rparr>, Rejected, Rejected] 0 12) (exampleConfig ExchangerateApi 1 [(USD, JPY), (USD, EUR)]) USD [JPY, EUR]
         \<lparr>rateStore = [key USD EUR \<mapsto> \<lparr>base = USD, quote = EUR, rate = 0.9, timestamp = Time 100, provider = ExchangerateApi, stale = False\<rparr>], calls = 0\<rparr>) (key USD EUR) =
       Some \<lparr>base = USD, quote = EUR, rate = 0.9, timestamp = Time 100, provider = ExchangerateApi, stale = True\<rparr>"
    by (simp_all add: key_def)
  with h1 h3 h4 show ?thesis by simp
qed

text \<open>
  C3.  In a fetch cycle inside the active window, when the fetch of the base \<open>b\<close> fails
  (in the state the cycle has reached after the bases before it), then for every
  configured pair \<open>(b, q)\<close> the store after the cycle holds what it held before the cycle
  with \<open>stale = true\<close>: \<open>getRate\<close> returns the same rate, timestamp and provider with
  \<open>stale = true\<close>, whatever the clock and the TTL, and returns \<open>null\<close> when there was no
  entry before the cycle.
\<close>

theorem failed_base_keeps_last_value:
  assumes "withinActiveWindow w cfg"
    and "groupByBase (pairs cfg) = earlier @ (b, quotes) # later"
    and "fst (tryFetch w cfg b quotes (calls (runGroups w cfg earlier s))) = Inl err"
    and "(b, q) \<in> set (pairs cfg)"
  shows "rateStore (runFetch w cfg s) (key b q) =
           map_option (\<lambda>old. \<lparr>base = b, quote = q, rate = rate old, timestamp = timestamp old,
                               provider = provider old, stale = True\<rparr>)
             (rateStore s (key b q))
       \<and> getRate (rateStore (runFetch w cfg s)) now b q ttlMs =
           map_option (\<lambda>old. \<lparr>base = b, quote = q, rate = rate old, timestamp = timestamp old,
                               provider = provider old, stale = True\<rparr>)
             (rateStore s (key b q))"
proof -
  let ?s1 = "runGroups w cfg earlier s"
  have "distinct (map fst (earlier @ (b, quotes) # later))"
    using groupByBase_distinct[of "pairs cfg"] by (simp add: assms(2))
  then have nb: "b \<notin> fst ` set earlier" and na: "b \<notin> fst ` set later"
    by auto
  have "(b, quotes) \<in> set (groupByBase (pairs cfg))"
    by (simp add: assms(2))
  then have "quotes = map snd (filter (\<lambda>p. fst p = b) (pairs cfg))"
    by (rule groupByBase_quotes)
  then have q: "q \<in> set quotes"
    using assms(4) by force
  have "rateStore (runFetch w cfg s) (key b q) =
          rateStore (runGroups w cfg later (fetchForBase w cfg b quotes ?s1)) (key b q)"
    by (simp add: runFetch_def assms(1,2) runGroups_append)
  also have "\<dots> = rateStore (fetchForBase w cfg b quotes ?s1) (key b q)"
    using na by (rule runGroups_other)
  also have "\<dots> = map_option (\<lambda>old. \<lparr>base = b, quote = q, rate = rate old, timestamp = timestamp old,
                               provider = provider old, stale = True\<rparr>) (rateStore ?s1 (key b q))"
    by (simp add: fetchForBase_failed[OF assms(3)] markStale_lookup[OF q])
  also have "rateStore ?s1 (key b q) = rateStore s (key b q)"
    using nb by (rule runGroups_other)
  finally have st: "rateStore (runFetch w cfg s) (key b q) =
           map_option (\<lambda>old. \<lparr>base = b, quote = q, rate = rate old, timestamp = timestamp old,
                               provider = provider old, stale = True\<rparr>)
             (rateStore s (key b q))" .
  then show ?thesis
    by (cases "rateStore s (key b q)") (simp_all add: getRate_def)
qed

theorem failed_base_keeps_last_value_witness:
  "withinActiveWindow (scripted [Responded \<lparr>status = 200, body = Some (JObj [(''result'', JStr ''success''), (''conversion_rate'', JNum 1.1)])\<rparr>, Rejected, Rejected] 0 12) (exampleConfig ExchangerateApi 1 [(EUR, USD), (USD, JPY)])
   \<and> groupByBase (pairs (exampleConfig ExchangerateApi 1 [(EUR, USD), (USD, JPY)])) = [(EUR, [USD])] @ (USD, [JPY]) # []
   \<and> fst (tryFetch (scripted [Responded \<lparr>status = 200, body = Some (JObj [(''result'', JStr ''success''), (''conversion_rate'', JNum 1.1)])\<rparr>, Rejected, Rejected] 0 12) (exampleConfig ExchangerateApi 1 [(EUR, USD), (USD, JPY)]) USD [JPY]
         (calls (runGroups (scripted [Responded \<lparr>status = 200, body = Some (JObj [(''result'', JStr ''success''), (''conversion_rate'', JNum 1.1)])\<rparr>, Rejected, Rejected] 0 12) (exampleConfig ExchangerateApi 1 [(EUR, USD), (USD, JPY)]) [(EUR, [USD])]
            \<lparr>rateStore = [key USD JPY \<mapsto> \<lparr>base = USD, quote = JPY, rate = 150, timestamp = Time 100, provider = ExchangerateApi, stale = False\<rparr>], calls = 0\<rparr>))) =
       Inl (AppError ''Rate provider request failed'' 503 ''RATE_PROVIDER_REQUEST_FAILED'')
   \<and> (USD, JPY) \<in> set (pairs (exampleConfig ExchangerateApi 1 [(EUR, USD), (USD, JPY)]))
   \<and> getRate (rateStore (runFetch (scripted [Responded \<lparr>status = 200, body = Some (JObj [(''result'', JStr ''success''), (''conversion_rate'', JNum 1.1)])\<rparr>, Rejected, Rejected] 0 12) (exampleConfig ExchangerateApi 1 [(EUR, USD), (USD, JPY)])
         \<lparr>rateStore = [key USD JPY \<mapsto> \<lparr>base = USD, quote = JPY, rate = 150, timestamp = Time 100, provider = ExchangerateApi, stale = False\<rparr>], calls = 0\<rparr>)) 5000 USD JPY 2700000 =
       Some \<lparr>base = USD, quote = JPY, rate = 150, timestamp = Time 100, provider = ExchangerateApi, stale = True\<rparr>"
proof -
  have h1: "withinActiveWindow (scripted [Responded \<lparr>status = 200, body = Some (JObj [(''result'', JStr ''success''), (''conversion_rate'', JNum 1.1)])\<rparr>, Rejected, Rejected] 0 12) (exampleConfig ExchangerateApi 1 [(EUR, USD), (USD, JPY)])"
    by (simp add: eval_defs fetch_eval_defs)
  have h2: "groupByBase (pairs (exampleConfig ExchangerateApi 1 [(EUR, USD), (USD, JPY)])) = [(EUR, [USD])] @ (USD, [JPY]) # []"
    by (simp add: eval_defs fetch_eval_defs)
  have h3: "fst (tryFetch (scripted [Responded \<lparr>status = 200, body = Some (JObj [(''result'', JStr ''success''), (''conversion_rate'', JNum 1.1)])\<rparr>, Rejected, Rejected] 0 12) (exampleConfig ExchangerateApi 1 [(EUR, USD), (USD, JPY)]) USD [JPY]
         (calls (runGroups (scripted [Responded \<lparr>status = 200, body = Some (JObj [(''result'', JStr ''success''), (''conversion_rate'', JNum 1.1)])\<rparr>, Rejected, Rejected] 0 12) (exampleConfig ExchangerateApi 1 [(EUR, USD), (USD, JPY)]) [(EUR, [USD])]
            \<lparr>rateStore = [key USD JPY \<mapsto> \<lparr>base = USD, quote = JPY, rate = 150, timestamp = Time 100, provider = ExchangerateApi, stale = False\<rparr>], calls = 0\<rparr>))) =
       Inl (AppError ''Rate provider request failed'' 503 ''RATE_PROVIDER_REQUEST_FAILED'')"
    by (simp add: eval_defs fetch_eval_defs)
  have h4: "(USD, JPY) \<in> set (pairs (exampleConfig ExchangerateApi 1 [(EUR, USD), (USD, JPY)]))"
    by (simp add: exampleConfig_def)
  from failed_base_keeps_last_value [OF h1 h2 h3 h4, of 5000 2700000]
  have "getRate (rateStore (runFetch (scripted [Responded \<lparr>status = 200, body = Some (JObj [(''result'', JStr ''success''), (''conversion_rate'', JNum 1.1)])\<rparr>, Rejected, Rejected] 0 12) (exampleConfig ExchangerateApi 1 [(EUR, USD), (USD, JPY)])
         \<lparr>rateStore = [key USD JPY \<mapsto> \<lparr>base = USD, quote = JPY, rate = 150, timestamp = Time 100, provider = ExchangerateApi, stale = False\<rparr>], calls = 0\<rparr>)) 5000 USD JPY 2700000 =
       Some \<lparr>base = USD, quote = JPY, rate = 150, timestamp = Time 100, provider = ExchangerateApi, stale = True\<rparr>"
    by simp
  with h1 h2 h3 h4 show ?thesis by simp
qed

text \<open>
  C8.  When the hour read for the configured time zone is outside
  \<open>[startHour, endHour)\<close>, a fetch cycle makes no call of \<open>fetch\<close> and leaves the store as
  it was.
\<close>

theorem runFetch_outside_window:
  assumes "\<not> (startHour cfg \<le> getHourInTimezone w (timezone cfg)
             \<and> getHourInTimezone w (timezone cfg) < endHour cfg)"
  shows "rateStore (runFetch w cfg s) = rateStore s \<and> calls (runFetch w cfg s) = calls s"
  using assms by (simp add: runFetch_def withinActiveWindow_def Let_def)

theorem runFetch_outside_window_witness:
  "\<not> (startHour (exampleConfig Mock 1 [(USD, JPY)])
        \<le> getHourInTimezone (scripted [] 0 3) (timezone (exampleConfig Mock 1 [(USD, JPY)]))
      \<and> getHourInTimezone (scripted [] 0 3) (timezone (exampleConfig Mock 1 [(USD, JPY)]))
        < endHour (exampleConfig Mock 1 [(USD, JPY)]))
   \<and> rateStore (runFetch (scripted [] 0 3) (exampleConfig Mock 1 [(USD, JPY)])
        \<lparr>rateStore = Map.empty, calls = 0\<rparr>) = Map.empty
   \<and> calls (runFetch (scripted [] 0 3) (exampleConfig Mock 1 [(USD, JPY)])
        \<lparr>rateStore = Map.empty, calls = 0\<rparr>) = 0"
  using runFetch_outside_window [of "exampleConfig Mock 1 [(USD, JPY)]" "scripted [] 0 3"
      "\<lparr>rateStore = Map.empty, calls = 0\<rparr>"]
  by (simp add: exampleConfig_def scripted_def getHourInTimezone_def)

end
